theory Spec2Isabelle
  imports Main "HOL-Library.Word"
begin

section \<open>Go values shared by the Vault packages\<close>

text \<open>
  A Go \<^verbatim>\<open>string\<close> is an immutable sequence of bytes; an Isabelle character is one byte, so
  a Go string is a \<^typ>\<open>string\<close>.  A \<^verbatim>\<open>[]byte\<close> is a list of 8-bit words.  The two
  conversions \<^verbatim>\<open>[]byte(s)\<close> and \<^verbatim>\<open>string(b)\<close> copy the bytes.
\<close>

type_synonym byte = "8 word"

definition bytes_of_string :: "string \<Rightarrow> byte list" where
  "bytes_of_string s = map (\<lambda>c. of_nat (of_char c)) s"

definition string_of_bytes :: "byte list \<Rightarrow> string" where
  "string_of_bytes b = map (\<lambda>w. char_of (unat w)) b"

text \<open>
  \<^verbatim>\<open>context.Context\<close>: no function of the repository inspects it, it is only handed on.
\<close>

datatype "context" = Background | WithDeadline nat "context"

text \<open>
  The \<^verbatim>\<open>error\<close> interface.  \<open>errorString\<close> is the value made by \<^verbatim>\<open>errors.New\<close>;
  \<open>ErrLimited\<close> is the sentinel the limiter returns; \<open>libraryError\<close> stands for an error
  value of any other dynamic type (the name of the type and its message).  \<open>Error\<close> is the
  method \<^verbatim>\<open>Error() string\<close>.
\<close>

datatype error = errorString string | ErrLimited | libraryError string string

fun Error :: "error \<Rightarrow> string" where
  "Error (errorString s) = s"
| "Error ErrLimited = ''rate limit exceeded''"
| "Error (libraryError t m) = m"

definition errors_New :: "string \<Rightarrow> error" where
  "errors_New text = errorString text"

text \<open>
  A call either returns or panics (a failed type assertion, a nil dereference).
\<close>

datatype 'a outcome = Panic | Return 'a

section \<open>service.go: the request and response shapes\<close>

record hashRequest =
  hashRequest_Password :: string

record hashResponse =
  hashResponse_Hash :: string
  hashResponse_Err :: string

record validateRequest =
  validateRequest_Password :: string
  validateRequest_Hash :: string

record validateResponse =
  validateResponse_Valid :: bool
  validateResponse_Err :: string

text \<open>
  Modelled from the spec: the generated protocol-buffer package \<^verbatim>\<open>pb\<close> is not among
  the sources.  Its four messages carry the fields the spec lists for the RPC service
  (\<^verbatim>\<open>HashRequest{password}\<close>, \<^verbatim>\<open>HashResponse{hash, err}\<close>,
  \<^verbatim>\<open>ValidateRequest{password, hash}\<close>, \<^verbatim>\<open>ValidateResponse{valid}\<close>), which are
  also exactly the fields server\_grpc.go reads and writes.
\<close>

record pb_HashRequest =
  pb_HashRequest_Password :: string

record pb_HashResponse =
  pb_HashResponse_Hash :: string
  pb_HashResponse_Err :: string

record pb_ValidateRequest =
  pb_ValidateRequest_Password :: string
  pb_ValidateRequest_Hash :: string

record pb_ValidateResponse =
  pb_ValidateResponse_Valid :: bool

text \<open>
  \<^verbatim>\<open>interface{}\<close>: a value together with its dynamic type.  The \<^verbatim>\<open>pb\<close> messages travel
  as pointers, which may be nil.
\<close>

datatype val =
    Nil
  | V_hashRequest hashRequest
  | V_hashResponse hashResponse
  | V_validateRequest validateRequest
  | V_validateResponse validateResponse
  | P_HashRequest "pb_HashRequest option"
  | P_HashResponse "pb_HashResponse option"
  | P_ValidateRequest "pb_ValidateRequest option"
  | P_ValidateResponse "pb_ValidateResponse option"
  | V_other string

section \<open>service.go: the Service interface and vaultService\<close>

text \<open>
  A method runs in a world \<open>'s\<close> (the random source that salts a hash, the token bucket,
  whatever an implementation keeps) and hands the world back with its result.
\<close>

record 's Service =
  Hash :: "context \<Rightarrow> string \<Rightarrow> 's \<Rightarrow> (string \<times> error option) outcome \<times> 's"
  Validate :: "context \<Rightarrow> string \<Rightarrow> string \<Rightarrow> 's \<Rightarrow> (bool \<times> error option) outcome \<times> 's"

text \<open>
  The package \<^verbatim>\<open>golang.org/x/crypto/bcrypt\<close> is a library outside the repository: its
  two functions and its constant are parameters.  \<^verbatim>\<open>GenerateFromPassword\<close> draws a salt
  from the world; \<^verbatim>\<open>CompareHashAndPassword(hashedPassword, password)\<close> only computes.
\<close>

record 's bcrypt =
  GenerateFromPassword :: "byte list \<Rightarrow> int \<Rightarrow> 's \<Rightarrow> (byte list \<times> error option) \<times> 's"
  CompareHashAndPassword :: "byte list \<Rightarrow> byte list \<Rightarrow> error option"
  DefaultCost :: int

definition vaultService_Hash ::
  "'s bcrypt \<Rightarrow> context \<Rightarrow> string \<Rightarrow> 's \<Rightarrow> (string \<times> error option) outcome \<times> 's" where
  "vaultService_Hash bc ctx password s =
     (case GenerateFromPassword bc (bytes_of_string password) (DefaultCost bc) s of
        ((hash, err), s') \<Rightarrow>
          (case err of
             Some e \<Rightarrow> (Return ('''', Some e), s')
           | None \<Rightarrow> (Return (string_of_bytes hash, None), s')))"

definition vaultService_Validate ::
  "'s bcrypt \<Rightarrow> context \<Rightarrow> string \<Rightarrow> string \<Rightarrow> 's \<Rightarrow> (bool \<times> error option) outcome \<times> 's" where
  "vaultService_Validate bc ctx password hash s =
     (case CompareHashAndPassword bc (bytes_of_string hash) (bytes_of_string password) of
        Some err \<Rightarrow> (Return (False, None), s)
      | None \<Rightarrow> (Return (True, None), s))"

definition NewService :: "'s bcrypt \<Rightarrow> 's Service" where
  "NewService bc = \<lparr>Hash = vaultService_Hash bc, Validate = vaultService_Validate bc\<rparr>"

section \<open>service.go: decoding HTTP requests\<close>


type_synonym 'a json_Decode = "string \<Rightarrow> 'a \<Rightarrow> 'a \<times> error option"



section \<open>service.go: endpoints\<close>

text \<open>
  \<^verbatim>\<open>endpoint.Endpoint\<close> of Go kit:
  \<^verbatim>\<open>func(ctx context.Context, request interface{}) (interface{}, error)\<close>.
\<close>

type_synonym 's Endpoint = "context \<Rightarrow> val \<Rightarrow> 's \<Rightarrow> (val \<times> error option) outcome \<times> 's"

definition MakeHashEndpoint :: "'s Service \<Rightarrow> 's Endpoint" where
  "MakeHashEndpoint srv ctx request s =
     (case request of
        V_hashRequest req \<Rightarrow>
          (case Hash srv ctx (hashRequest_Password req) s of
             (Panic, s') \<Rightarrow> (Panic, s')
           | (Return (v, err), s') \<Rightarrow>
               (case err of
                  Some e \<Rightarrow>
                    (Return (V_hashResponse
                       \<lparr>hashResponse_Hash = v, hashResponse_Err = Error e\<rparr>, None), s')
                | None \<Rightarrow>
                    (Return (V_hashResponse
                       \<lparr>hashResponse_Hash = v, hashResponse_Err = ''''\<rparr>, None), s')))
      | _ \<Rightarrow> (Panic, s))"

definition MakeValidateEndpoint :: "'s Service \<Rightarrow> 's Endpoint" where
  "MakeValidateEndpoint srv ctx request s =
     (case request of
        V_validateRequest req \<Rightarrow>
          (case Validate srv ctx (validateRequest_Password req) (validateRequest_Hash req) s of
             (Panic, s') \<Rightarrow> (Panic, s')
           | (Return (v, err), s') \<Rightarrow>
               (case err of
                  Some e \<Rightarrow>
                    (Return (V_validateResponse
                       \<lparr>validateResponse_Valid = False, validateResponse_Err = Error e\<rparr>, None), s')
                | None \<Rightarrow>
                    (Return (V_validateResponse
                       \<lparr>validateResponse_Valid = v, validateResponse_Err = ''''\<rparr>, None), s')))
      | _ \<Rightarrow> (Panic, s))"

record 's Endpoints =
  HashEndpoint :: "'s Endpoint"
  ValidateEndpoint :: "'s Endpoint"

definition Endpoints_Hash ::
  "'s Endpoints \<Rightarrow> context \<Rightarrow> string \<Rightarrow> 's \<Rightarrow> (string \<times> error option) outcome \<times> 's" where
  "Endpoints_Hash e ctx password s =
     (case HashEndpoint e ctx (V_hashRequest \<lparr>hashRequest_Password = password\<rparr>) s of
        (Panic, s') \<Rightarrow> (Panic, s')
      | (Return (resp, Some err), s') \<Rightarrow> (Return ('''', Some err), s')
      | (Return (resp, None), s') \<Rightarrow>
          (case resp of
             V_hashResponse hashResp \<Rightarrow>
               (if hashResponse_Err hashResp \<noteq> ''''
                then (Return ('''', Some (errors_New (hashResponse_Err hashResp))), s')
                else (Return (hashResponse_Hash hashResp, None), s'))
           | _ \<Rightarrow> (Panic, s')))"

definition Endpoints_Validate ::
  "'s Endpoints \<Rightarrow> context \<Rightarrow> string \<Rightarrow> string \<Rightarrow> 's \<Rightarrow> (bool \<times> error option) outcome \<times> 's" where
  "Endpoints_Validate e ctx password hash s =
     (case ValidateEndpoint e ctx
             (V_validateRequest
                \<lparr>validateRequest_Password = password, validateRequest_Hash = hash\<rparr>) s of
        (Panic, s') \<Rightarrow> (Panic, s')
      | (Return (resp, Some err), s') \<Rightarrow> (Return (False, Some err), s')
      | (Return (resp, None), s') \<Rightarrow>
          (case resp of
             V_validateResponse validateResp \<Rightarrow>
               (if validateResponse_Err validateResp \<noteq> ''''
                then (Return (False, Some (errors_New (validateResponse_Err validateResp))), s')
                else (Return (validateResponse_Valid validateResp, None), s'))
           | _ \<Rightarrow> (Panic, s')))"

text \<open>The aggregate that main builds from one service.\<close>

definition endpoints_of :: "'s Service \<Rightarrow> 's Endpoints" where
  "endpoints_of srv =
     \<lparr>HashEndpoint = MakeHashEndpoint srv, ValidateEndpoint = MakeValidateEndpoint srv\<rparr>"

section \<open>service.go and server\_http.go: the HTTP server\<close>







section \<open>server\_grpc.go: translating between the generic shapes and the wire messages\<close>

text \<open>
  Each function asserts the dynamic type of its argument (a panic when it is another
  type), reads the fields (a panic when a message pointer is nil) and builds the value of
  the other side.  None of them returns an error.
\<close>

type_synonym grpc_func = "context \<Rightarrow> val \<Rightarrow> (val \<times> error option) outcome"

definition EncodeGRPCHashRequest :: grpc_func where
  "EncodeGRPCHashRequest ctx r =
     (case r of
        V_hashRequest req \<Rightarrow>
          Return (P_HashRequest
            (Some \<lparr>pb_HashRequest_Password = hashRequest_Password req\<rparr>), None)
      | _ \<Rightarrow> Panic)"

definition DecodeGRPCHashRequest :: grpc_func where
  "DecodeGRPCHashRequest ctx r =
     (case r of
        P_HashRequest (Some req) \<Rightarrow>
          Return (V_hashRequest
            \<lparr>hashRequest_Password = pb_HashRequest_Password req\<rparr>, None)
      | _ \<Rightarrow> Panic)"

definition EncodeGRPCHashResponse :: grpc_func where
  "EncodeGRPCHashResponse ctx r =
     (case r of
        V_hashResponse res \<Rightarrow>
          Return (P_HashResponse
            (Some \<lparr>pb_HashResponse_Hash = hashResponse_Hash res,
                   pb_HashResponse_Err = hashResponse_Err res\<rparr>), None)
      | _ \<Rightarrow> Panic)"

definition DecodeGRPCHashResponse :: grpc_func where
  "DecodeGRPCHashResponse ctx r =
     (case r of
        P_HashResponse (Some res) \<Rightarrow>
          Return (V_hashResponse
            \<lparr>hashResponse_Hash = pb_HashResponse_Hash res,
             hashResponse_Err = pb_HashResponse_Err res\<rparr>, None)
      | _ \<Rightarrow> Panic)"

definition EncodeGRPCValidateRequest :: grpc_func where
  "EncodeGRPCValidateRequest ctx r =
     (case r of
        V_validateRequest req \<Rightarrow>
          Return (P_ValidateRequest
            (Some \<lparr>pb_ValidateRequest_Password = validateRequest_Password req,
                   pb_ValidateRequest_Hash = validateRequest_Hash req\<rparr>), None)
      | _ \<Rightarrow> Panic)"

definition DecodeGRPCValidateRequest :: grpc_func where
  "DecodeGRPCValidateRequest ctx r =
     (case r of
        P_ValidateRequest (Some req) \<Rightarrow>
          Return (V_validateRequest
            \<lparr>validateRequest_Password = pb_ValidateRequest_Password req,
             validateRequest_Hash = pb_ValidateRequest_Hash req\<rparr>, None)
      | _ \<Rightarrow> Panic)"

text \<open>
  The two functions for the validate response name the field \<^verbatim>\<open>Valid\<close> only; the
  composite literal \<^verbatim>\<open>validateResponse{Valid: res.Valid}\<close> leaves \<^verbatim>\<open>Err\<close> at its zero
  value.
\<close>

definition EncodeGRPCValidateResponse :: grpc_func where
  "EncodeGRPCValidateResponse ctx r =
     (case r of
        V_validateResponse res \<Rightarrow>
          Return (P_ValidateResponse
            (Some \<lparr>pb_ValidateResponse_Valid = validateResponse_Valid res\<rparr>), None)
      | _ \<Rightarrow> Panic)"

definition DecodeGRPCValidateResponse :: grpc_func where
  "DecodeGRPCValidateResponse ctx r =
     (case r of
        P_ValidateResponse (Some res) \<Rightarrow>
          Return (V_validateResponse
            \<lparr>validateResponse_Valid = pb_ValidateResponse_Valid res,
             validateResponse_Err = ''''\<rparr>, None)
      | _ \<Rightarrow> Panic)"

text \<open>
  What a value goes through between the two ends of a call: one side encodes it, the
  other side decodes the message it receives.
\<close>

definition encode_then_decode :: "grpc_func \<Rightarrow> grpc_func \<Rightarrow> grpc_func" where
  "encode_then_decode enc dec ctx v =
     (case enc ctx v of
        Panic \<Rightarrow> Panic
      | Return (m, Some err) \<Rightarrow> Return (Nil, Some err)
      | Return (m, None) \<Rightarrow> dec ctx m)"

section \<open>main.go: the token bucket limiter\<close>

text \<open>
  The bucket belongs to the library \<^verbatim>\<open>ratelimit\<close>, outside the repository: its method
  \<^verbatim>\<open>TakeAvailable(count)\<close> is a parameter that takes the bucket and returns the number of
  tokens it removed and the bucket afterwards.  The limiter holds a pointer to the bucket,
  so the bucket is part of the world, next to the world of the wrapped endpoint.
\<close>

type_synonym 'b TakeAvailable = "int \<Rightarrow> 'b \<Rightarrow> int \<times> 'b"

definition NewTokenBucketLimiter :: "'b TakeAvailable \<Rightarrow> 's Endpoint \<Rightarrow> ('b \<times> 's) Endpoint" where
  "NewTokenBucketLimiter TakeAvailable next ctx request w =
     (case w of (tb, s) \<Rightarrow>
        (case TakeAvailable 1 tb of (n, tb') \<Rightarrow>
           if n = 0 then (Return (Nil, Some ErrLimited), (tb', s))
           else (case next ctx request s of (r, s') \<Rightarrow> (r, (tb', s')))))"

section \<open>main.go: the process\<close>

text \<open>
  The three function literals that main starts with \<^verbatim>\<open>go\<close>.
\<close>

datatype goroutine = signal_watcher | http_server string | grpc_server string

text \<open>
  The process as far as its exit is concerned: the goroutines started, the values that
  goroutines are waiting to send on \<^verbatim>\<open>errChan\<close> (the channel has no buffer, so a send
  waits until main receives), and the exit status once the process has ended.
\<close>

record process =
  goroutines :: "goroutine list"
  errChan_senders :: "error list"
  exit_status :: "int option"

text \<open>What the world can do to the started goroutines.\<close>

datatype event =
    signal_arrives string
  | ListenAndServe_returns error
  | net_Listen_fails error
  | Serve_returns error

definition go_stmt :: "goroutine \<Rightarrow> process \<Rightarrow> process" where
  "go_stmt g p = p\<lparr>goroutines := goroutines p @ [g]\<rparr>"

definition send_errChan :: "error \<Rightarrow> process \<Rightarrow> process" where
  "send_errChan err p = p\<lparr>errChan_senders := errChan_senders p @ [err]\<rparr>"

definition is_http_server :: "goroutine \<Rightarrow> bool" where
  "is_http_server g = (case g of http_server a \<Rightarrow> True | _ \<Rightarrow> False)"

definition is_grpc_server :: "goroutine \<Rightarrow> bool" where
  "is_grpc_server g = (case g of grpc_server a \<Rightarrow> True | _ \<Rightarrow> False)"

fun occurs :: "event \<Rightarrow> process \<Rightarrow> process" where
  "occurs (signal_arrives sig) p =
     (if signal_watcher \<in> set (goroutines p) then send_errChan (errorString sig) p else p)"
| "occurs (ListenAndServe_returns err) p =
     (if list_ex is_http_server (goroutines p) then send_errChan err p else p)"
| "occurs (net_Listen_fails err) p =
     (if list_ex is_grpc_server (goroutines p) then send_errChan err p else p)"
| "occurs (Serve_returns err) p =
     (if list_ex is_grpc_server (goroutines p) then send_errChan err p else p)"

text \<open>
  When the function main returns, the program exits with status 0 and does not wait for
  the other goroutines.
\<close>

definition return_from_main :: "process \<Rightarrow> process" where
  "return_from_main p = p\<lparr>exit_status := Some 0\<rparr>"

text \<open>
  The body of main, statement by statement: make the channel, start the signal watcher,
  build the endpoints, start the HTTP server, start the gRPC server, return.  None of the
  statements receives from \<^verbatim>\<open>errChan\<close>.  \<open>events\<close> is what happens to the goroutines
  before main reaches its last statement.
\<close>

definition main :: "string \<Rightarrow> string \<Rightarrow> event list \<Rightarrow> process" where
  "main httpAddr gRPCAddr events =
     (let p0 = \<lparr>goroutines = [], errChan_senders = [], exit_status = None\<rparr>;
          p1 = go_stmt signal_watcher p0;
          p2 = go_stmt (http_server httpAddr) p1;
          p3 = go_stmt (grpc_server gRPCAddr) p2;
          p4 = fold occurs events p3
      in return_from_main p4)"

section \<open>Stand-ins for the libraries and for a Service, to run the model on\<close>

text \<open>
  A hashing package with the interface of bcrypt: the hash is one salt byte, taken from a
  counter that plays the random source, followed by the password; passwords over 72
  bytes are refused.
\<close>

definition salted_bcrypt :: "nat bcrypt" where
  "salted_bcrypt =
     \<lparr>GenerateFromPassword = (\<lambda>password cost n.
        if 72 < length password
        then (([], Some (libraryError ''bcrypt'' ''password length exceeds 72 bytes'')), n)
        else ((of_nat n # password, None), Suc n)),
      CompareHashAndPassword = (\<lambda>hashedPassword password.
        case hashedPassword of
          [] \<Rightarrow> Some (libraryError ''bcrypt'' ''hashedSecret too short'')
        | salt # rest \<Rightarrow>
            if rest = password then None
            else Some (libraryError ''bcrypt'' ''hashedPassword is not the hash'')),
      DefaultCost = 10\<rparr>"

text \<open>A Service whose two methods return the given values to every call.\<close>

definition fixed_service :: "string \<Rightarrow> bool \<Rightarrow> error option \<Rightarrow> unit Service" where
  "fixed_service v b err =
     \<lparr>Hash = (\<lambda>ctx password s. (Return (v, err), s)),
      Validate = (\<lambda>ctx password hash s. (Return (b, err), s))\<rparr>"

text \<open>
  A stand-in for the decoder of \<^verbatim>\<open>encoding/json\<close>.  It reads the grammar of JSON
  (RFC 8259) into a tree; a reading function takes the number of nested calls it may
  still make, which \<open>next_value\<close> sets from the length of the body.  Like
  \<^verbatim>\<open>Decoder.Decode\<close> it reads the first JSON value of the body and leaves what follows
  unread; it fills a struct from an object, matching member names to field names without
  regard to the case of ASCII letters, takes a string or null for a string field, and
  reports a type error for any other value.  Bytes of a string outside an escape are kept
  as they are.  \<open>JSON_text\<close> says that the whole body is one JSON value between optional
  white space.
\<close>

datatype json =
    JNull
  | JBool bool
  | JNumber string
  | JString string
  | JArray "json list"
  | JObject "(string \<times> json) list"

definition char_code :: "char \<Rightarrow> nat" where
  "char_code c = of_char c"


definition is_space :: "char \<Rightarrow> bool" where
  "is_space c = (char_code c = 0x20 \<or> char_code c = 0x09 \<or> char_code c = 0x0A \<or> char_code c = 0x0D)"

definition skip_space :: "string \<Rightarrow> string" where
  "skip_space cs = dropWhile is_space cs"

definition is_digit :: "char \<Rightarrow> bool" where
  "is_digit c = (0x30 \<le> char_code c \<and> char_code c \<le> 0x39)"

definition hex_value :: "char \<Rightarrow> nat option" where
  "hex_value c =
     (if 0x30 \<le> char_code c \<and> char_code c \<le> 0x39 then Some (char_code c - 0x30)
      else if 0x41 \<le> char_code c \<and> char_code c \<le> 0x46 then Some (char_code c - 0x41 + 10)
      else if 0x61 \<le> char_code c \<and> char_code c \<le> 0x66 then Some (char_code c - 0x61 + 10)
      else None)"

definition hex4 :: "char \<Rightarrow> char \<Rightarrow> char \<Rightarrow> char \<Rightarrow> nat option" where
  "hex4 a b c d =
     (case (hex_value a, hex_value b, hex_value c, hex_value d) of
        (Some w, Some x, Some y, Some z) \<Rightarrow> Some (((w * 16 + x) * 16 + y) * 16 + z)
      | _ \<Rightarrow> None)"

definition simple_escape :: "char \<Rightarrow> char option" where
  "simple_escape e =
     (if e = CHR 0x22 then Some (CHR 0x22)
      else if e = CHR 0x5C then Some (CHR 0x5C)
      else if e = CHR ''/'' then Some (CHR ''/'')
      else if e = CHR ''b'' then Some (CHR 0x08)
      else if e = CHR ''f'' then Some (CHR 0x0C)
      else if e = CHR ''n'' then Some (CHR 0x0A)
      else if e = CHR ''r'' then Some (CHR 0x0D)
      else if e = CHR ''t'' then Some (CHR 0x09)
      else None)"

definition utf8 :: "nat \<Rightarrow> string" where
  "utf8 n =
     (if n < 0x80 then [char_of n]
      else if n < 0x800 then [char_of (0xC0 + n div 64), char_of (0x80 + n mod 64)]
      else if n < 0x10000 then
        [char_of (0xE0 + n div 4096), char_of (0x80 + (n div 64) mod 64),
         char_of (0x80 + n mod 64)]
      else
        [char_of (0xF0 + n div 262144), char_of (0x80 + (n div 4096) mod 64),
         char_of (0x80 + (n div 64) mod 64), char_of (0x80 + n mod 64)])"

fun scan_string :: "string \<Rightarrow> (string \<times> string) option" where
  "scan_string [] = None"
| "scan_string (c # cs) =
     (if c = CHR 0x22 then Some ([], cs)
      else if c = CHR 0x5C then
        (case cs of
           [] \<Rightarrow> None
         | e # r \<Rightarrow>
             if e = CHR ''u'' then
               (case r of
                  h1 # h2 # h3 # h4 # r' \<Rightarrow>
                    (case hex4 h1 h2 h3 h4 of
                       None \<Rightarrow> None
                     | Some u \<Rightarrow>
                         (case scan_string r' of
                            None \<Rightarrow> None
                          | Some (raw, rest) \<Rightarrow> Some (c # e # h1 # h2 # h3 # h4 # raw, rest)))
                | _ \<Rightarrow> None)
             else
               (case simple_escape e of
                  None \<Rightarrow> None
                | Some b \<Rightarrow>
                    (case scan_string r of
                       None \<Rightarrow> None
                     | Some (raw, rest) \<Rightarrow> Some (c # e # raw, rest))))
      else if char_code c < 0x20 then None
      else
        (case scan_string cs of
           None \<Rightarrow> None
         | Some (raw, rest) \<Rightarrow> Some (c # raw, rest)))"

definition low_surrogate :: "string \<Rightarrow> nat option" where
  "low_surrogate cs =
     (case cs of
        b # u # h1 # h2 # h3 # h4 # r \<Rightarrow>
          if b = CHR 0x5C \<and> u = CHR ''u'' then
            (case hex4 h1 h2 h3 h4 of
               Some l \<Rightarrow> if 0xDC00 \<le> l \<and> l < 0xE000 then Some l else None
             | None \<Rightarrow> None)
          else None
      | _ \<Rightarrow> None)"

fun unquote :: "string \<Rightarrow> string" where
  "unquote [] = []"
| "unquote (c # cs) =
     (if c = CHR 0x5C then
        (case cs of
           [] \<Rightarrow> []
         | e # r \<Rightarrow>
             if e = CHR ''u'' then
               (case r of
                  h1 # h2 # h3 # h4 # r' \<Rightarrow>
                    (case hex4 h1 h2 h3 h4 of
                       None \<Rightarrow> []
                     | Some u \<Rightarrow>
                         if 0xD800 \<le> u \<and> u < 0xDC00 then
                           (case low_surrogate r' of
                              Some l \<Rightarrow>
                                utf8 (0x10000 + (u - 0xD800) * 1024 + (l - 0xDC00))
                                  @ unquote (drop 6 r')
                            | None \<Rightarrow> utf8 0xFFFD @ unquote r')
                         else if 0xDC00 \<le> u \<and> u < 0xE000 then utf8 0xFFFD @ unquote r'
                         else utf8 u @ unquote r')
                | _ \<Rightarrow> [])
             else
               (case simple_escape e of
                  None \<Rightarrow> []
                | Some b \<Rightarrow> b # unquote r))
      else c # unquote cs)"

definition scan_digits :: "string \<Rightarrow> (string \<times> string) option" where
  "scan_digits cs =
     (if takeWhile is_digit cs = [] then None
      else Some (takeWhile is_digit cs, dropWhile is_digit cs))"

definition scan_number :: "string \<Rightarrow> (string \<times> string) option" where
  "scan_number cs =
     (let (sign, r0) = (case cs of
                          [] \<Rightarrow> ([], [])
                        | c # r \<Rightarrow> if c = CHR ''-'' then ([c], r) else ([], cs));
          whole = (case r0 of
                     [] \<Rightarrow> None
                   | d # r1 \<Rightarrow>
                       if d = CHR ''0'' then Some ([d], r1)
                       else if is_digit d then scan_digits r0
                       else None)
      in case whole of
           None \<Rightarrow> None
         | Some (ds, r2) \<Rightarrow>
             (let fraction = (case r2 of
                                [] \<Rightarrow> Some ([], r2)
                              | p # r3 \<Rightarrow>
                                  if p = CHR ''.'' then
                                    (case scan_digits r3 of
                                       None \<Rightarrow> None
                                     | Some (fs, r4) \<Rightarrow> Some (p # fs, r4))
                                  else Some ([], r2))
              in case fraction of
                   None \<Rightarrow> None
                 | Some (fs, r5) \<Rightarrow>
                     (let exponent = (case r5 of
                                        [] \<Rightarrow> Some ([], r5)
                                      | e # r6 \<Rightarrow>
                                          if e = CHR ''e'' \<or> e = CHR ''E'' then
                                            (let (sg, r7) = (case r6 of
                                                   [] \<Rightarrow> ([], [])
                                                 | g # r8 \<Rightarrow>
                                                     if g = CHR ''+'' \<or> g = CHR ''-''
                                                     then ([g], r8) else ([], r6))
                                             in case scan_digits r7 of
                                                  None \<Rightarrow> None
                                                | Some (es, r9) \<Rightarrow> Some (e # sg @ es, r9))
                                          else Some ([], r5))
                      in case exponent of
                           None \<Rightarrow> None
                         | Some (es, r10) \<Rightarrow> Some (sign @ ds @ fs @ es, r10))))"

definition scan_literal :: "string \<Rightarrow> json \<Rightarrow> string \<Rightarrow> (json \<times> string) option" where
  "scan_literal word v cs =
     (if take (length word) cs = word then Some (v, drop (length word) cs) else None)"

fun read_value :: "nat \<Rightarrow> string \<Rightarrow> (json \<times> string) option"
and read_elements :: "nat \<Rightarrow> string \<Rightarrow> (json list \<times> string) option"
and read_members :: "nat \<Rightarrow> string \<Rightarrow> ((string \<times> json) list \<times> string) option" where
  "read_value 0 cs = None"
| "read_value (Suc n) cs =
     (case cs of
        [] \<Rightarrow> None
      | c # r \<Rightarrow>
          if c = CHR 0x22 then
            (case scan_string r of
               None \<Rightarrow> None
             | Some (raw, rest) \<Rightarrow> Some (JString (unquote raw), rest))
          else if c = CHR ''{'' then
            (case skip_space r of
               [] \<Rightarrow> None
             | d # r' \<Rightarrow>
                 if d = CHR ''}'' then Some (JObject [], r')
                 else (case read_members n (d # r') of
                         None \<Rightarrow> None
                       | Some (ms, rest) \<Rightarrow> Some (JObject ms, rest)))
          else if c = CHR ''['' then
            (case skip_space r of
               [] \<Rightarrow> None
             | d # r' \<Rightarrow>
                 if d = CHR '']'' then Some (JArray [], r')
                 else (case read_elements n (d # r') of
                         None \<Rightarrow> None
                       | Some (vs, rest) \<Rightarrow> Some (JArray vs, rest)))
          else if c = CHR ''t'' then scan_literal ''true'' (JBool True) cs
          else if c = CHR ''f'' then scan_literal ''false'' (JBool False) cs
          else if c = CHR ''n'' then scan_literal ''null'' JNull cs
          else (case scan_number cs of
                  None \<Rightarrow> None
                | Some (digits, rest) \<Rightarrow> Some (JNumber digits, rest)))"
| "read_elements 0 cs = None"
| "read_elements (Suc n) cs =
     (case read_value n cs of
        None \<Rightarrow> None
      | Some (v, r) \<Rightarrow>
          (case skip_space r of
             [] \<Rightarrow> None
           | d # r' \<Rightarrow>
               if d = CHR '']'' then Some ([v], r')
               else if d = CHR '','' then
                 (case read_elements n (skip_space r') of
                    None \<Rightarrow> None
                  | Some (vs, rest) \<Rightarrow> Some (v # vs, rest))
               else None))"
| "read_members 0 cs = None"
| "read_members (Suc n) cs =
     (case cs of
        [] \<Rightarrow> None
      | q # r \<Rightarrow>
          if q \<noteq> CHR 0x22 then None
          else
            (case scan_string r of
               None \<Rightarrow> None
             | Some (raw, r1) \<Rightarrow>
                 (case skip_space r1 of
                    [] \<Rightarrow> None
                  | colon # r2 \<Rightarrow>
                      if colon \<noteq> CHR '':'' then None
                      else
                        (case read_value n (skip_space r2) of
                           None \<Rightarrow> None
                         | Some (v, r3) \<Rightarrow>
                             (case skip_space r3 of
                                [] \<Rightarrow> None
                              | d # r4 \<Rightarrow>
                                  if d = CHR ''}'' then Some ([(unquote raw, v)], r4)
                                  else if d = CHR '','' then
                                    (case read_members n (skip_space r4) of
                                       None \<Rightarrow> None
                                     | Some (ms, rest) \<Rightarrow>
                                         Some ((unquote raw, v) # ms, rest))
                                  else None)))))"

definition next_value :: "string \<Rightarrow> (json \<times> string) option" where
  "next_value body = read_value (2 * length body + 2) (skip_space body)"




definition UnmarshalTypeError :: error where
  "UnmarshalTypeError =
     libraryError ''*json.UnmarshalTypeError'' ''json: cannot unmarshal value into Go value''"





definition stream_Decode ::
  "((string \<times> json) list \<Rightarrow> 'a \<times> error option \<Rightarrow> 'a \<times> error option) \<Rightarrow> 'a json_Decode" where
  "stream_Decode fill body req =
     (if skip_space body = [] then (req, Some (errorString ''EOF''))
      else
        (case next_value body of
           None \<Rightarrow> (req, Some (libraryError ''*json.SyntaxError'' ''invalid character''))
         | Some (v, rest) \<Rightarrow>
             (case v of
                JObject ms \<Rightarrow> fill ms (req, None)
              | JNull \<Rightarrow> (req, None)
              | _ \<Rightarrow> (req, Some UnmarshalTypeError))))"

text \<open>An endpoint that echoes its request and counts, in its world, how often it ran.\<close>

definition counting_endpoint :: "nat Endpoint" where
  "counting_endpoint ctx request calls = (Return (request, None), Suc calls)"

text \<open>
  A bucket that is never refilled: a number of tokens, of which \<open>TakeAvailable\<close> removes
  as many as are asked for and present.
\<close>

definition take_tokens :: "nat TakeAvailable" where
  "take_tokens count tokens =
     (if count \<le> 0 then (0, tokens)
      else (int (min (nat count) tokens), tokens - min (nat count) tokens))"

section \<open>Conversions between strings and byte slices\<close>

lemma bytes_of_string_of_bytes: "bytes_of_string (string_of_bytes b) = b"
proof (induction b)
  case Nil
  show ?case by (simp add: bytes_of_string_def string_of_bytes_def)
next
  case (Cons w ws)
  have "unat w < 256" using unsigned_less [of w] by simp
  then have "of_char (char_of (unat w)) = unat w" by (simp add: of_char_of)
  then have "(word_of_nat (of_char (char_of (unat w))) :: byte) = w" by simp
  with Cons show ?case by (simp add: bytes_of_string_def string_of_bytes_def)
qed

lemma string_of_bytes_empty: "string_of_bytes b = [] \<longleftrightarrow> b = []"
  by (simp add: string_of_bytes_def)

section \<open>The hashing service\<close>

lemma Hash_NewService:
  "Hash (NewService bc) ctx p s = (Return (h, None), s') \<Longrightarrow>
   \<exists>hb. GenerateFromPassword bc (bytes_of_string p) (DefaultCost bc) s = ((hb, None), s')
        \<and> h = string_of_bytes hb"
  by (auto simp: NewService_def vaultService_Hash_def split: prod.splits option.splits)

text \<open>
  Claim C1.  Whenever \<open>Hash\<close> of the vault service succeeds on a password \<open>p\<close> with the
  hash \<open>h\<close>, \<open>Validate\<close> of \<open>p\<close> against \<open>h\<close> returns true with a nil error, in any
  context and any later world.  The hashing library is held to its contract: a hash it
  generated from a password compares equal to that password.  The service hands the
  password and the hash to the library in the right order and loses no byte in the
  conversions between string and byte slice.
\<close>

theorem Validate_of_Hash:
  assumes contract: "\<And>password cost w hashed w'.
            GenerateFromPassword bc password cost w = ((hashed, None), w')
            \<Longrightarrow> CompareHashAndPassword bc hashed password = None"
      and hashed: "Hash (NewService bc) ctx p s = (Return (h, None), s')"
  shows "Validate (NewService bc) ctx' p h t = (Return (True, None), t)"
proof -
  from Hash_NewService [OF hashed] obtain hb where
    gen: "GenerateFromPassword bc (bytes_of_string p) (DefaultCost bc) s = ((hb, None), s')"
    and h: "h = string_of_bytes hb"
    by blast
  from contract [OF gen] have "CompareHashAndPassword bc hb (bytes_of_string p) = None" .
  then show ?thesis
    by (simp add: NewService_def vaultService_Validate_def h bytes_of_string_of_bytes)
qed

theorem Validate_of_Hash_witness:
  "Hash (NewService salted_bcrypt) Background ''pw'' 7 = (Return (CHR 0x07 # ''pw'', None), 8)
   \<and> Validate (NewService salted_bcrypt) Background ''pw'' (CHR 0x07 # ''pw'') 9
       = (Return (True, None), 9)"
proof -
  have c: "\<And>password cost w hashed w'.
            GenerateFromPassword salted_bcrypt password cost w = ((hashed, None), w')
            \<Longrightarrow> CompareHashAndPassword salted_bcrypt hashed password = None"
    by (auto simp: salted_bcrypt_def split: if_splits)
  have h: "Hash (NewService salted_bcrypt) Background ''pw'' 7
             = (Return (CHR 0x07 # ''pw'', None), 8)"
    by code_simp
  from Validate_of_Hash [OF c h, where ctx' = Background and t = 9] h show ?thesis by simp
qed

text \<open>
  Claim C3.  \<open>Validate\<close> of the vault service always returns, always with a nil error,
  and leaves the world as it was; the flag is true exactly when the library's
  comparison returned nil.  So every error of the comparison, a mismatch as much as a
  hash that cannot be parsed, comes out as \<open>(false, nil)\<close>.
\<close>

theorem Validate_error_always_nil:
  "Validate (NewService bc) ctx password hash s =
     (Return (CompareHashAndPassword bc (bytes_of_string hash) (bytes_of_string password) = None,
              None), s)"
  by (simp add: NewService_def vaultService_Validate_def split: option.splits)

section \<open>Decoding HTTP requests\<close>

text \<open>
  The stand-in decoder looks at the first value of the body only: what it returns is
  decided by that value, whatever follows it.
\<close>

lemma next_value_not_blank: "next_value body = Some (v, rest) \<Longrightarrow> skip_space body \<noteq> []"
  by (auto simp: next_value_def)

lemma stream_Decode_reads_first_value:
  "next_value body = Some (v, rest) \<Longrightarrow>
   stream_Decode fill body req =
     (case v of
        JObject ms \<Rightarrow> fill ms (req, None)
      | JNull \<Rightarrow> (req, None)
      | _ \<Rightarrow> (req, Some UnmarshalTypeError))"
  using next_value_not_blank [of body v rest] by (simp add: stream_Decode_def)




section \<open>The endpoint layer\<close>

text \<open>
  What the two endpoints return for a request of their shape when the service call
  returns, and what the aggregate built from them returns to its caller.
\<close>

lemma MakeHashEndpoint_returns:
  "Hash srv ctx (hashRequest_Password req) s = (Return (v, err), s') \<Longrightarrow>
   MakeHashEndpoint srv ctx (V_hashRequest req) s =
     (Return (V_hashResponse
        \<lparr>hashResponse_Hash = v,
         hashResponse_Err = (case err of Some e \<Rightarrow> Error e | None \<Rightarrow> '''')\<rparr>, None), s')"
  by (simp add: MakeHashEndpoint_def split: option.splits)

lemma MakeValidateEndpoint_returns:
  "Validate srv ctx (validateRequest_Password req) (validateRequest_Hash req) s
     = (Return (v, err), s') \<Longrightarrow>
   MakeValidateEndpoint srv ctx (V_validateRequest req) s =
     (Return (V_validateResponse
        (case err of
           Some e \<Rightarrow> \<lparr>validateResponse_Valid = False, validateResponse_Err = Error e\<rparr>
         | None \<Rightarrow> \<lparr>validateResponse_Valid = v, validateResponse_Err = ''''\<rparr>), None), s')"
  by (simp add: MakeValidateEndpoint_def split: option.splits)

lemma Endpoints_Hash_of_service:
  "Hash srv ctx p s = (Return (v, err), s') \<Longrightarrow>
   Endpoints_Hash (endpoints_of srv) ctx p s =
     (case err of
        None \<Rightarrow> (Return (v, None), s')
      | Some e \<Rightarrow>
          if Error e \<noteq> '''' then (Return ('''', Some (errors_New (Error e))), s')
          else (Return (v, None), s'))"
  by (simp add: Endpoints_Hash_def endpoints_of_def MakeHashEndpoint_def split: option.splits)

lemma Endpoints_Validate_of_service:
  "Validate srv ctx p h s = (Return (b, err), s') \<Longrightarrow>
   Endpoints_Validate (endpoints_of srv) ctx p h s =
     (case err of
        None \<Rightarrow> (Return (b, None), s')
      | Some e \<Rightarrow>
          if Error e \<noteq> '''' then (Return (False, Some (errors_New (Error e))), s')
          else (Return (False, None), s'))"
  by (simp add: Endpoints_Validate_def endpoints_of_def MakeValidateEndpoint_def
        split: option.splits)

text \<open>
  Claim C4.  The claim is that, when the service call fails, both endpoints return a nil
  transport error and a response whose error field is the failure's message and whose
  success field is the zero value.  \<open>MakeValidateEndpoint\<close> writes \<open>false\<close> itself;
  \<open>MakeHashEndpoint\<close> writes the string the service returned beside the error.  Run on a
  service whose \<open>Hash\<close> returns \<open>("partial", errors.New("boom"))\<close>, the hash endpoint
  answers with the hash field \<open>"partial"\<close>, not the empty string.
\<close>

theorem MakeHashEndpoint_failure_keeps_hash:
  "MakeHashEndpoint (fixed_service ''partial'' False (Some (errors_New ''boom''))) Background
     (V_hashRequest \<lparr>hashRequest_Password = ''pw''\<rparr>) ()
   = (Return (V_hashResponse
        \<lparr>hashResponse_Hash = ''partial'', hashResponse_Err = ''boom''\<rparr>, None), ())"
  by (simp add: MakeHashEndpoint_def fixed_service_def errors_New_def)

text \<open>
  Claim C6.  Over the vault service, the hash endpoint always returns a response and a nil
  transport error.  When hashing succeeded the hash field is non-empty and the error field
  is empty; when hashing failed the hash field is empty and the error field is non-empty;
  the two fields are never both populated.  The validate endpoint always returns a
  response with an empty error field.  The hashing library is held to two facts of its
  contract: a generated hash is not empty, and the message of an error it returns is not
  empty.
\<close>

theorem response_fields_exclusive:
  assumes nonempty_hash: "\<And>password cost w hashed w'.
            GenerateFromPassword bc password cost w = ((hashed, None), w') \<Longrightarrow> hashed \<noteq> []"
      and nonempty_message: "\<And>password cost w hashed e w'.
            GenerateFromPassword bc password cost w = ((hashed, Some e), w') \<Longrightarrow> Error e \<noteq> ''''"
  shows "(\<exists>r s'. MakeHashEndpoint (NewService bc) ctx (V_hashRequest req) s
                   = (Return (V_hashResponse r, None), s')
            \<and> (case fst (Hash (NewService bc) ctx (hashRequest_Password req) s) of
                  Return (h, None) \<Rightarrow> hashResponse_Hash r \<noteq> '''' \<and> hashResponse_Err r = ''''
                | Return (h, Some e) \<Rightarrow> hashResponse_Hash r = '''' \<and> hashResponse_Err r \<noteq> ''''
                | Panic \<Rightarrow> False)
            \<and> \<not> (hashResponse_Hash r \<noteq> '''' \<and> hashResponse_Err r \<noteq> ''''))
         \<and> (\<exists>r. MakeValidateEndpoint (NewService bc) ctx (V_validateRequest vreq) t
                   = (Return (V_validateResponse r, None), t)
            \<and> validateResponse_Err r = '''')"
proof
  obtain hb err s' where
    gen: "GenerateFromPassword bc (bytes_of_string (hashRequest_Password req)) (DefaultCost bc) s
            = ((hb, err), s')"
    by (metis surj_pair)
  show "\<exists>r s'. MakeHashEndpoint (NewService bc) ctx (V_hashRequest req) s
                   = (Return (V_hashResponse r, None), s')
            \<and> (case fst (Hash (NewService bc) ctx (hashRequest_Password req) s) of
                  Return (h, None) \<Rightarrow> hashResponse_Hash r \<noteq> '''' \<and> hashResponse_Err r = ''''
                | Return (h, Some e) \<Rightarrow> hashResponse_Hash r = '''' \<and> hashResponse_Err r \<noteq> ''''
                | Panic \<Rightarrow> False)
            \<and> \<not> (hashResponse_Hash r \<noteq> '''' \<and> hashResponse_Err r \<noteq> '''')"
  proof (cases err)
    case None
    with gen nonempty_hash have "hb \<noteq> []" by blast
    then have "string_of_bytes hb \<noteq> ''''" by (simp add: string_of_bytes_empty)
    with gen None show ?thesis
      by (simp add: MakeHashEndpoint_def NewService_def vaultService_Hash_def)
  next
    case (Some e)
    with gen nonempty_message have "Error e \<noteq> ''''" by blast
    with gen Some show ?thesis
      by (simp add: MakeHashEndpoint_def NewService_def vaultService_Hash_def)
  qed
next
  show "\<exists>r. MakeValidateEndpoint (NewService bc) ctx (V_validateRequest vreq) t
                   = (Return (V_validateResponse r, None), t)
            \<and> validateResponse_Err r = ''''"
    by (simp add: MakeValidateEndpoint_def NewService_def vaultService_Validate_def
          split: option.splits)
qed

theorem response_fields_exclusive_witness:
  "(\<exists>r s'. MakeHashEndpoint (NewService salted_bcrypt) Background
              (V_hashRequest \<lparr>hashRequest_Password = ''pw''\<rparr>) 7
                   = (Return (V_hashResponse r, None), s')
            \<and> (case fst (Hash (NewService salted_bcrypt) Background
                            (hashRequest_Password \<lparr>hashRequest_Password = ''pw''\<rparr>) 7) of
                  Return (h, None) \<Rightarrow> hashResponse_Hash r \<noteq> '''' \<and> hashResponse_Err r = ''''
                | Return (h, Some e) \<Rightarrow> hashResponse_Hash r = '''' \<and> hashResponse_Err r \<noteq> ''''
                | Panic \<Rightarrow> False)
            \<and> \<not> (hashResponse_Hash r \<noteq> '''' \<and> hashResponse_Err r \<noteq> ''''))
         \<and> (\<exists>r. MakeValidateEndpoint (NewService salted_bcrypt) Background
                   (V_validateRequest
                      \<lparr>validateRequest_Password = ''pw'', validateRequest_Hash = ''xx''\<rparr>) 7
                   = (Return (V_validateResponse r, None), 7)
            \<and> validateResponse_Err r = '''')"
proof -
  have a: "\<And>password cost w hashed w'.
            GenerateFromPassword salted_bcrypt password cost w = ((hashed, None), w')
            \<Longrightarrow> hashed \<noteq> []"
    by (auto simp: salted_bcrypt_def split: if_splits)
  have b: "\<And>password cost w hashed e w'.
            GenerateFromPassword salted_bcrypt password cost w = ((hashed, Some e), w')
            \<Longrightarrow> Error e \<noteq> ''''"
    by (auto simp: salted_bcrypt_def split: if_splits)
  show ?thesis by (rule response_fields_exclusive [OF a b])
qed

text \<open>
  Claim C5, amended.  The aggregate built from the two endpoints of a service \<open>srv\<close>
  answers as \<open>srv\<close> does in these cases: when \<open>Hash\<close> of \<open>srv\<close> succeeds, \<open>Hash\<close> of the
  aggregate returns the same hash and a nil error; when \<open>Hash\<close> of \<open>srv\<close> fails with an
  error whose message is not empty, \<open>Hash\<close> of the aggregate returns the empty string and
  an error made of the same message; when \<open>Validate\<close> of \<open>srv\<close> succeeds, \<open>Validate\<close> of the
  aggregate returns the same flag and a nil error; when \<open>Validate\<close> of \<open>srv\<close> fails with an
  error whose message is not empty, \<open>Validate\<close> of the aggregate returns false and an error
  made of the same message.  The world after the call is the same on both sides.
\<close>

theorem Endpoints_interchangeable:
  "(Hash srv ctx p s = (Return (h, None), s')
      \<longrightarrow> Endpoints_Hash (endpoints_of srv) ctx p s = (Return (h, None), s'))
   \<and> (Hash srv ctx p s = (Return (v, Some e), s') \<and> Error e \<noteq> ''''
      \<longrightarrow> Endpoints_Hash (endpoints_of srv) ctx p s
            = (Return ('''', Some (errors_New (Error e))), s'))
   \<and> (Validate srv ctx p g t = (Return (b, None), t')
      \<longrightarrow> Endpoints_Validate (endpoints_of srv) ctx p g t = (Return (b, None), t'))
   \<and> (Validate srv ctx p g t = (Return (c, Some e'), t') \<and> Error e' \<noteq> ''''
      \<longrightarrow> Endpoints_Validate (endpoints_of srv) ctx p g t
            = (Return (False, Some (errors_New (Error e'))), t'))"
  by (simp add: Endpoints_Hash_of_service Endpoints_Validate_of_service)

theorem Endpoints_interchangeable_witness:
  "Endpoints_Hash (endpoints_of (NewService salted_bcrypt)) Background ''pw'' 7
     = (Return (CHR 0x07 # ''pw'', None), 8)
   \<and> Endpoints_Hash (endpoints_of (fixed_service '''' False (Some (errors_New ''boom''))))
       Background ''pw'' ()
     = (Return ('''', Some (errors_New ''boom'')), ())
   \<and> Endpoints_Validate (endpoints_of (NewService salted_bcrypt)) Background ''pw''
       (CHR 0x07 # ''pw'') 8
     = (Return (True, None), 8)
   \<and> Endpoints_Validate (endpoints_of (fixed_service '''' True (Some (errors_New ''boom''))))
       Background ''pw'' ''h'' ()
     = (Return (False, Some (errors_New ''boom'')), ())"
proof -
  have h1: "Hash (NewService salted_bcrypt) Background ''pw'' 7
              = (Return (CHR 0x07 # ''pw'', None), 8)"
    by code_simp
  have h2: "Hash (fixed_service '''' False (Some (errors_New ''boom''))) Background ''pw'' ()
              = (Return ('''', Some (errors_New ''boom'')), ())
            \<and> Error (errors_New ''boom'') \<noteq> ''''"
    by (simp add: fixed_service_def errors_New_def)
  have v1: "Validate (NewService salted_bcrypt) Background ''pw'' (CHR 0x07 # ''pw'') 8
              = (Return (True, None), 8)"
    by code_simp
  have v2: "Validate (fixed_service '''' True (Some (errors_New ''boom''))) Background
              ''pw'' ''h'' ()
              = (Return (True, Some (errors_New ''boom'')), ())
            \<and> Error (errors_New ''boom'') \<noteq> ''''"
    by (simp add: fixed_service_def errors_New_def)
  have e: "Error (errors_New ''boom'') = ''boom''"
    by (simp add: errors_New_def)
  from Endpoints_interchangeable
         [of "NewService salted_bcrypt" Background "''pw''" 7 "CHR 0x07 # ''pw''" 8]
       h1
  have a: "Endpoints_Hash (endpoints_of (NewService salted_bcrypt)) Background ''pw'' 7
             = (Return (CHR 0x07 # ''pw'', None), 8)"
    by blast
  from Endpoints_interchangeable
         [where srv = "fixed_service '''' False (Some (errors_New ''boom''))"
            and ctx = Background and p = "''pw''" and s = "()" and v = "''''"
            and e = "errors_New ''boom''" and s' = "()"]
       h2 e
  have b: "Endpoints_Hash (endpoints_of (fixed_service '''' False (Some (errors_New ''boom''))))
             Background ''pw'' ()
           = (Return ('''', Some (errors_New ''boom'')), ())"
    by simp
  from Endpoints_interchangeable
         [where srv = "NewService salted_bcrypt" and ctx = Background and p = "''pw''"
            and g = "CHR 0x07 # ''pw''" and t = 8 and b = True and t' = 8]
       v1
  have c: "Endpoints_Validate (endpoints_of (NewService salted_bcrypt)) Background ''pw''
             (CHR 0x07 # ''pw'') 8
           = (Return (True, None), 8)"
    by blast
  from Endpoints_interchangeable
         [where srv = "fixed_service '''' True (Some (errors_New ''boom''))"
            and ctx = Background and p = "''pw''" and g = "''h''" and t = "()" and c = True
            and e' = "errors_New ''boom''" and t' = "()"]
       v2 e
  have d: "Endpoints_Validate (endpoints_of (fixed_service '''' True (Some (errors_New ''boom''))))
             Background ''pw'' ''h'' ()
           = (Return (False, Some (errors_New ''boom'')), ())"
    by simp
  from a b c d show ?thesis by blast
qed

text \<open>
  C5 as it was written says that the aggregate fails exactly when the service fails.  A
  service that fails with \<open>errors.New("")\<close> is a failure the aggregate reports as a
  success: the error travels as its message, and the empty message means no error.
\<close>

theorem Endpoints_Hash_loses_silent_failure:
  "Hash (fixed_service '''' False (Some (errors_New ''''))) Background ''pw'' ()
     = (Return ('''', Some (errorString '''')), ())
   \<and> Endpoints_Hash (endpoints_of (fixed_service '''' False (Some (errors_New ''''))))
       Background ''pw'' ()
     = (Return ('''', None), ())"
  by (simp add: Endpoints_Hash_def endpoints_of_def MakeHashEndpoint_def fixed_service_def
        errors_New_def)

text \<open>
  The aggregate sees a failure only in the \<open>Err\<close> field of the response: when an endpoint
  returns a response and a nil transport error, the method of the aggregate fails exactly
  when \<open>Err\<close> is not the empty string, and otherwise returns the \<open>Hash\<close> or \<open>Valid\<close> field
  with a nil error.
\<close>

lemma Endpoints_read_only_Err:
  "(HashEndpoint e ctx (V_hashRequest \<lparr>hashRequest_Password = p\<rparr>) s
      = (Return (V_hashResponse r, None), s')
      \<longrightarrow> Endpoints_Hash e ctx p s
            = (if hashResponse_Err r \<noteq> ''''
               then (Return ('''', Some (errors_New (hashResponse_Err r))), s')
               else (Return (hashResponse_Hash r, None), s')))
   \<and> (ValidateEndpoint e ctx
        (V_validateRequest \<lparr>validateRequest_Password = p, validateRequest_Hash = g\<rparr>) t
      = (Return (V_validateResponse q, None), t')
      \<longrightarrow> Endpoints_Validate e ctx p g t
            = (if validateResponse_Err q \<noteq> ''''
               then (Return (False, Some (errors_New (validateResponse_Err q))), t')
               else (Return (validateResponse_Valid q, None), t')))"
  by (simp add: Endpoints_Hash_def Endpoints_Validate_def)

text \<open>
  Claim C10.  The claim is that, when the service fails with an error whose message is
  empty, \<open>Hash\<close> of the aggregate reports success with the zero-value hash and
  \<open>Validate\<close> reports success with the flag of the response.  The failure is lost as the
  claim says, and \<open>Validate\<close> returns false; but the hash endpoint passes on the string the
  service returned with its error, where the validate endpoint writes the zero value
  itself.  Run on a service whose \<open>Hash\<close> returns \<open>("partial", errors.New(""))\<close>, \<open>Hash\<close> of
  the aggregate succeeds with \<open>"partial"\<close>, not with the empty string.
\<close>

theorem silent_failure_returns_service_hash:
  "Hash (fixed_service ''partial'' False (Some (errors_New ''''))) Background ''pw'' ()
     = (Return (''partial'', Some (errorString '''')), ())
   \<and> Endpoints_Hash (endpoints_of (fixed_service ''partial'' False (Some (errors_New ''''))))
       Background ''pw'' ()
     = (Return (''partial'', None), ())
   \<and> ''partial'' \<noteq> ''''"
  by (simp add: Endpoints_Hash_def endpoints_of_def MakeHashEndpoint_def fixed_service_def
        errors_New_def)

section \<open>The gRPC translation of responses\<close>

text \<open>
  Claim C2, amended.  Encoding a \<open>hashResponse\<close> and decoding the message gives back the
  same value, \<open>Hash\<close> and \<open>Err\<close> alike.  Encoding a \<open>validateResponse\<close> and decoding the
  message gives back the same \<open>Valid\<close> with \<open>Err\<close> empty: the wire message of the validate
  response has no field for the error, so the round trip is the identity exactly on the
  responses whose \<open>Err\<close> is empty.
\<close>

theorem grpc_response_round_trip:
  "encode_then_decode EncodeGRPCHashResponse DecodeGRPCHashResponse ctx (V_hashResponse h)
     = Return (V_hashResponse h, None)
   \<and> encode_then_decode EncodeGRPCValidateResponse DecodeGRPCValidateResponse ctx
       (V_validateResponse v)
     = Return (V_validateResponse (v\<lparr>validateResponse_Err := ''''\<rparr>), None)"
  by (simp add: encode_then_decode_def EncodeGRPCHashResponse_def DecodeGRPCHashResponse_def
        EncodeGRPCValidateResponse_def DecodeGRPCValidateResponse_def)

text \<open>
  C2 as it was written says that \<open>Err\<close> survives the round trip of both response types.
  A \<open>validateResponse\<close> with \<open>Err = "boom"\<close> comes back with \<open>Err\<close> empty.
\<close>

theorem validateResponse_Err_lost:
  "encode_then_decode EncodeGRPCValidateResponse DecodeGRPCValidateResponse Background
     (V_validateResponse \<lparr>validateResponse_Valid = False, validateResponse_Err = ''boom''\<rparr>)
   = Return (V_validateResponse
       \<lparr>validateResponse_Valid = False, validateResponse_Err = ''''\<rparr>, None)
   \<and> \<lparr>validateResponse_Valid = False, validateResponse_Err = ''''\<rparr>
       \<noteq> \<lparr>validateResponse_Valid = False, validateResponse_Err = ''boom''\<rparr>"
  by (simp add: encode_then_decode_def EncodeGRPCValidateResponse_def
        DecodeGRPCValidateResponse_def)

section \<open>The token bucket limiter\<close>

text \<open>
  Claim C9.  Every call of an endpoint wrapped by the limiter asks the bucket once, for
  one token, and the bucket is left as that one request leaves it.  When the bucket gives
  no token, the call returns nil and \<open>ErrLimited\<close> and the world of the inner endpoint is
  untouched: the inner endpoint did not run.  When the bucket gives a token, the call
  returns what one run of the inner endpoint returns, and the world of the inner endpoint
  is what that one run leaves.
\<close>

theorem limiter_takes_one_token:
  assumes "TakeAvailable 1 tb = (n, tb')"
  shows "(n = 0 \<longrightarrow> NewTokenBucketLimiter TakeAvailable next ctx request (tb, s)
                      = (Return (Nil, Some ErrLimited), (tb', s)))
       \<and> (n \<noteq> 0 \<longrightarrow> NewTokenBucketLimiter TakeAvailable next ctx request (tb, s)
                      = (fst (next ctx request s), (tb', snd (next ctx request s))))"
  using assms by (simp add: NewTokenBucketLimiter_def split: prod.splits)

theorem limiter_takes_one_token_witness:
  "NewTokenBucketLimiter take_tokens counting_endpoint Background (V_other ''request'') (0, 0)
     = (Return (Nil, Some ErrLimited), (0, 0))
   \<and> NewTokenBucketLimiter take_tokens counting_endpoint Background (V_other ''request'') (2, 0)
     = (Return (V_other ''request'', None), (1, 1))"
proof -
  have t0: "take_tokens 1 0 = (0, 0)" and t2: "take_tokens 1 2 = (1, 1)"
    by (simp_all add: take_tokens_def)
  have c: "counting_endpoint Background (V_other ''request'') 0
             = (Return (V_other ''request'', None), 1)"
    by (simp add: counting_endpoint_def)
  from limiter_takes_one_token
         [of take_tokens 0 0 0 counting_endpoint Background "V_other ''request''" 0] t0
  have a: "NewTokenBucketLimiter take_tokens counting_endpoint Background
             (V_other ''request'') (0, 0) = (Return (Nil, Some ErrLimited), (0, 0))"
    by simp
  from limiter_takes_one_token
         [of take_tokens 2 1 1 counting_endpoint Background "V_other ''request''" 0] t2 c
  have b: "NewTokenBucketLimiter take_tokens counting_endpoint Background
             (V_other ''request'') (2, 0) = (Return (V_other ''request'', None), (1, 1))"
    by simp
  from a b show ?thesis by blast
qed

section \<open>The process\<close>

text \<open>
  Whatever happens to the goroutines, main returns after starting them, and the process
  ends with status 0.
\<close>

lemma exit_status_main: "exit_status (main httpAddr gRPCAddr events) = Some 0"
  by (simp add: main_def return_from_main_def Let_def)

text \<open>
  Claim C7.  The claim is that the process stays alive until the first of a signal, an
  HTTP serve error or a gRPC serve error, and then exits with a status other than 0.  The
  body of main starts three goroutines that send to \<open>errChan\<close> and never receives from it.
  Started on the default addresses, with no signal and no listener error at all, the
  process has exited with status 0 and nothing was ever sent on the channel.
\<close>

theorem main_returns_without_trigger:
  "exit_status (main '':8080'' '':8081'' []) = Some 0
   \<and> errChan_senders (main '':8080'' '':8081'' []) = []"
  by (simp add: main_def return_from_main_def go_stmt_def Let_def)

end
